theory Spec2Isabelle
  imports Complex_Main "HOL-Library.Sublist"
begin

section \<open>Strings\<close>

text \<open>
  Python strings are modelled as \<open>string\<close>. The model covers ASCII text: \<open>lower\<close>
  maps the letters \<open>A\<close> to \<open>Z\<close> to \<open>a\<close> to \<open>z\<close> and leaves every other character as it is.
\<close>

definition lower_char :: "char \<Rightarrow> char" where
  "lower_char c =
     (case map_of (zip ''ABCDEFGHIJKLMNOPQRSTUVWXYZ'' ''abcdefghijklmnopqrstuvwxyz'') c of
        Some l \<Rightarrow> l
      | None \<Rightarrow> c)"

definition lower :: "string \<Rightarrow> string" where
  "lower s = map lower_char s"

definition upper_char :: "char \<Rightarrow> char" where
  "upper_char c =
     (case map_of (zip ''abcdefghijklmnopqrstuvwxyz'' ''ABCDEFGHIJKLMNOPQRSTUVWXYZ'') c of
        Some u \<Rightarrow> u
      | None \<Rightarrow> c)"

definition upper :: "string \<Rightarrow> string" where
  "upper s = map upper_char s"

text \<open>\<open>strip\<close> removes the ASCII whitespace at both ends.\<close>

definition is_space :: "char \<Rightarrow> bool" where
  "is_space c = (c \<in> set [CHR 0x20, CHR 0x09, CHR 0x0A, CHR 0x0B, CHR 0x0C, CHR 0x0D,
                             CHR 0x1C, CHR 0x1D, CHR 0x1E, CHR 0x1F])"

definition strip :: "string \<Rightarrow> string" where
  "strip s = rev (dropWhile is_space (rev (dropWhile is_space s)))"

text \<open>\<open>contains kw s\<close> is Python's \<open>kw in s\<close> on strings: \<open>kw\<close> occurs in \<open>s\<close> as a substring.\<close>

fun contains :: "string \<Rightarrow> string \<Rightarrow> bool" where
  "contains kw [] = (kw = [])"
| "contains kw (c # cs) = (prefix kw (c # cs) \<or> contains kw cs)"

text \<open>A text between single quotes, as Python's error messages show names.\<close>

definition quoted :: "string \<Rightarrow> string" where
  "quoted s = CHR 0x27 # s @ [CHR 0x27]"

section \<open>Exceptions\<close>

text \<open>
  An instance of Python's \<open>Exception\<close>, as the handlers of the host look at it:
  whether it is an instance of \<open>asyncio.TimeoutError\<close> (the first handler of every
  \<open>try\<close> of the host), \<open>type(e).__name__\<close> and \<open>str(e)\<close>.
\<close>

record py_exception =
  is_timeout :: bool
  type_name :: string
  message :: string

definition timeout_error :: py_exception where
  "timeout_error = \<lparr>is_timeout = True, type_name = ''TimeoutError'', message = ''''\<rparr>"

definition attribute_error :: "string \<Rightarrow> py_exception" where
  "attribute_error m = \<lparr>is_timeout = False, type_name = ''AttributeError'', message = m\<rparr>"

definition index_error :: "string \<Rightarrow> py_exception" where
  "index_error m = \<lparr>is_timeout = False, type_name = ''IndexError'', message = m\<rparr>"

section \<open>The tool provider as the host sees it\<close>

text \<open>A tool descriptor of the catalog: \<open>name\<close>, \<open>description\<close>, \<open>inputSchema\<close>.\<close>

record tool =
  tool_name :: string
  tool_description :: string
  tool_inputSchema :: string

text \<open>
  The content blocks of a tool result. Only a text block has the attribute \<open>text\<close>.
\<close>

datatype content = TextContent string | ImageContent | EmbeddedResource

definition no_attribute :: "string \<Rightarrow> string \<Rightarrow> py_exception" where
  "no_attribute cls attr =
     attribute_error (quoted cls @ '' object has no attribute '' @ quoted attr)"

fun content_text :: "content \<Rightarrow> py_exception + string" where
  "content_text (TextContent t) = Inr t"
| "content_text ImageContent = Inl (no_attribute ''ImageContent'' ''text'')"
| "content_text EmbeddedResource = Inl (no_attribute ''EmbeddedResource'' ''text'')"

text \<open>What awaiting \<open>session.call_tool\<close> under \<open>wait_for\<close> does: it raises or returns a result.\<close>

datatype call_outcome = CallRaises py_exception | CallReturns "content list"

text \<open>What awaiting \<open>session.list_tools\<close> under \<open>wait_for\<close> does.\<close>

datatype list_outcome = ListRaises py_exception | ListReturns "tool list"

text \<open>One step of opening a connection: it raises or it goes through.\<close>

datatype step = Raises py_exception | Ok

text \<open>
  A session object. \<open>sid\<close> tells the sessions of successive connection attempts apart;
  \<open>listed\<close> is what the last \<open>list_tools\<close> that returned on this session returned, and
  \<open>raised\<close> the exceptions that \<open>call_tool\<close> raised on this session, in order. The
  host reads neither \<open>listed\<close> nor \<open>raised\<close>: they record the history of the session.
\<close>

record session =
  sid :: nat
  listed :: "tool list option"
  raised :: "py_exception list"

section \<open>The language model as the host sees it\<close>

type_synonym arguments = "(string \<times> string) list"

text \<open>
  A content block of a response: a text block, or a tool-use block with its \<open>id\<close>,
  \<open>name\<close> and \<open>input\<close>. Only a text block has the attribute \<open>text\<close>.
\<close>

datatype block = TextBlock string | ToolUseBlock string string arguments

fun block_type :: "block \<Rightarrow> string" where
  "block_type (TextBlock t) = ''text''"
| "block_type (ToolUseBlock i n a) = ''tool_use''"

fun block_text :: "block \<Rightarrow> py_exception + string" where
  "block_text (TextBlock t) = Inr t"
| "block_text (ToolUseBlock i n a) = Inl (no_attribute ''ToolUseBlock'' ''text'')"

text \<open>\<open>content[0].text\<close>: the index or the attribute may be missing.\<close>

fun first_text :: "block list \<Rightarrow> py_exception + string" where
  "first_text [] = Inl (index_error ''list index out of range'')"
| "first_text (b # bs) = block_text b"

record response =
  stop_reason :: string
  content :: "block list"

text \<open>
  The content of a message of the history: a text, the blocks of an assistant response, or
  a list of tool results, each a pair of \<open>tool_use_id\<close> and \<open>content\<close>.
\<close>

datatype msg_content = Text string | Blocks "block list" | ToolResults "(string \<times> string) list"

datatype message = Message (msg_role: string) (msg_body: msg_content)

record claude_tool =
  name :: string
  description :: string
  input_schema :: string

datatype llm_outcome = LLMRaises py_exception | LLMReturns response

section \<open>The host\<close>

text \<open>
  What the host does that can be seen from outside, in the order it happens: a connection
  attempt starts, the host sleeps, \<open>call_mcp_tool\<close> is entered with a name and arguments, and
  a completion request goes to the language model with a tool catalog and a message
  history. The completion request also records the session the host holds at that moment.
\<close>

datatype event =
    Attempt nat
  | Sleep real
  | ToolCall string arguments
  | Completion "claude_tool list" "message list" "session option"

text \<open>
  The world outside the host. Every call that leaves the host is answered from here; the
  answer may depend on \<open>clock\<close>, the number of such calls made so far, so that the same
  call can be answered differently each time.
\<close>

record env =
  sse_connect :: "nat \<Rightarrow> step"
  session_enter :: "nat \<Rightarrow> step"
  initialize :: "nat \<Rightarrow> step"
  list_tools :: "nat \<Rightarrow> list_outcome"
  call_tool :: "nat \<Rightarrow> string \<Rightarrow> arguments \<Rightarrow> call_outcome"
  create_message :: "nat \<Rightarrow> claude_tool list \<Rightarrow> message list \<Rightarrow> llm_outcome"

text \<open>
  The fields of \<open>FinanceAnalyzerHost\<close> that the operations read or write (\<open>exit_stack\<close>
  is whether the field is set), with the clock and the trace of events.
\<close>

record host =
  mcp_session :: "session option"
  available_tools :: "tool list"
  exit_stack :: bool
  max_retries :: nat
  base_delay :: real
  proceed_without_tools :: bool
  clock :: nat
  trace :: "event list"

definition tick :: "host \<Rightarrow> host" where
  "tick h = h\<lparr>clock := Suc (clock h)\<rparr>"

definition emit :: "event \<Rightarrow> host \<Rightarrow> host" where
  "emit ev h = h\<lparr>trace := trace h @ [ev]\<rparr>"

subsection \<open>Tool invocation\<close>

definition connection_keywords :: "string list" where
  "connection_keywords =
     [''connection'', ''protocol'', ''remote'', ''disconnect'', ''closed'',
      ''reset'', ''refused'', ''unreachable'', ''timeout'', ''network'']"

text \<open>The test of line 189: a keyword occurs in the lowered type name or message.\<close>

definition connection_error :: "py_exception \<Rightarrow> bool" where
  "connection_error e =
     list_ex (\<lambda>keyword. contains keyword (lower (type_name e)) \<or>
                         contains keyword (lower (message e))) connection_keywords"

definition server_unavailable :: string where
  "server_unavailable =
     ''MCP server is no longer available. The server may have been shut down. '' @
     ''You can continue with general questions or restart the server and try again.''"

text \<open>The two handlers of \<open>call_mcp_tool\<close>, in the order of the source.\<close>

definition tool_error :: "string \<Rightarrow> py_exception \<Rightarrow> host \<Rightarrow> string \<times> host" where
  "tool_error tname e h =
     (if is_timeout e then
        (''Tool '' @ tname @ '' timed out after 30 seconds - MCP server may be unavailable'', h)
      else if connection_error e then
        (server_unavailable, h\<lparr>available_tools := []\<rparr>)
      else (''Error calling tool '' @ tname @ '': '' @ type_name e, h))"

text \<open>
  The \<open>try\<close> block of \<open>call_mcp_tool\<close>: the exception raised in it or the text returned,
  and the host as the block leaves it. With no session, \<open>self.mcp_session.call_tool\<close>
  raises AttributeError before anything is sent. Otherwise the call is awaited, and the
  first block's text is the result; a result with no content gives the "no content" text.
  An exception raised by the call is entered in the history of the session.
\<close>

definition call_body ::
  "env \<Rightarrow> string \<Rightarrow> arguments \<Rightarrow> host \<Rightarrow> (py_exception + string) \<times> host" where
  "call_body w tname args h =
     (let h0 = emit (ToolCall tname args) h in
      case mcp_session h0 of
        None \<Rightarrow> (Inl (no_attribute ''NoneType'' ''call_tool''), h0)
      | Some s \<Rightarrow>
          (case call_tool w (clock h0) tname args of
             CallRaises e \<Rightarrow>
               (Inl e, tick (h0\<lparr>mcp_session := Some (s\<lparr>raised := raised s @ [e]\<rparr>)\<rparr>))
           | CallReturns cs \<Rightarrow>
               (case cs of
                  [] \<Rightarrow> (Inr (''Tool '' @ tname @ '' executed but returned no content''), tick h0)
                | c # _ \<Rightarrow> (content_text c, tick h0))))"

definition call_mcp_tool :: "env \<Rightarrow> string \<Rightarrow> arguments \<Rightarrow> host \<Rightarrow> string \<times> host" where
  "call_mcp_tool w tname args h =
     (case call_body w tname args h of
        (Inl e, h1) \<Rightarrow> tool_error tname e h1
      | (Inr t, h1) \<Rightarrow> (t, h1))"

subsection \<open>Catalog discovery\<close>

text \<open>
  \<open>discover_tools\<close>. The catalog is assigned only when \<open>list_tools\<close> returns; both
  handlers return False and assign nothing.
\<close>

definition discover_tools :: "env \<Rightarrow> host \<Rightarrow> bool \<times> host" where
  "discover_tools w h =
     (case mcp_session h of
        None \<Rightarrow> (False, h)
      | Some s \<Rightarrow>
          (case list_tools w (clock h) of
             ListRaises e \<Rightarrow> (False, tick h)
           | ListReturns ts \<Rightarrow>
               (ts \<noteq> [],
                (tick h)\<lparr>mcp_session := Some (s\<lparr>listed := Some ts\<rparr>),
                         available_tools := ts\<rparr>)))"

subsection \<open>Connection management\<close>

text \<open>
  \<open>cleanup_connections\<close>: whatever closing the exit stack does, the two fields are unset.
\<close>

definition cleanup_connections :: "host \<Rightarrow> host" where
  "cleanup_connections h = h\<lparr>exit_stack := False, mcp_session := None\<rparr>"

text \<open>
  The \<open>try\<close> block of one connection attempt (lines 56 to 95); the result is whether the
  attempt returned True. Every exception ends the attempt in one of the two handlers.
\<close>

definition connect_attempt :: "env \<Rightarrow> nat \<Rightarrow> host \<Rightarrow> bool \<times> host" where
  "connect_attempt w attempt h =
     (let h0 = emit (Attempt attempt) h;
          h1 = (if exit_stack h0 then cleanup_connections h0 else h0);
          h2 = h1\<lparr>exit_stack := True\<rparr>
      in case sse_connect w (clock h2) of
           Raises e \<Rightarrow> (False, tick h2)
         | Ok \<Rightarrow>
             (let h3 = tick h2
              in case session_enter w (clock h3) of
                   Raises e \<Rightarrow> (False, tick h3)
                 | Ok \<Rightarrow>
                     (let h4 = (tick h3)\<lparr>mcp_session :=
                                   Some \<lparr>sid = clock h3, listed = None, raised = []\<rparr>\<rparr>
                      in case initialize w (clock h4) of
                           Raises e \<Rightarrow> (False, tick h4)
                         | Ok \<Rightarrow> discover_tools w (tick h4))))"

text \<open>Lines 97 to 104: what follows a failed attempt.\<close>

definition after_failure :: "nat \<Rightarrow> host \<Rightarrow> host" where
  "after_failure attempt h =
     (let h1 = cleanup_connections h
      in if attempt < max_retries h1
         then emit (Sleep (base_delay h1 * 2 ^ (attempt - 1))) h1
         else h1)"

text \<open>The \<open>for\<close> loop over the attempts still to make.\<close>

fun connect_loop :: "env \<Rightarrow> nat list \<Rightarrow> host \<Rightarrow> bool \<times> host" where
  "connect_loop w [] h = (False, h)"
| "connect_loop w (attempt # rest) h =
     (case connect_attempt w attempt h of
        (True, h1) \<Rightarrow> (True, h1)
      | (False, h1) \<Rightarrow> connect_loop w rest (after_failure attempt h1))"

definition connect_to_mcp_server :: "env \<Rightarrow> host \<Rightarrow> bool \<times> host" where
  "connect_to_mcp_server w h = connect_loop w [1 ..< max_retries h + 1] h"

subsection \<open>Conversation orchestration\<close>

definition format_tool :: "tool \<Rightarrow> claude_tool" where
  "format_tool t =
     \<lparr>name = tool_name t, description = tool_description t, input_schema = tool_inputSchema t\<rparr>"

text \<open>
  \<open>format_tools_for_claude\<close>. The three attributes exist on every tool descriptor, so the
  handler inside the loop is never entered.
\<close>

definition format_tools_for_claude :: "host \<Rightarrow> claude_tool list" where
  "format_tools_for_claude h = map format_tool (available_tools h)"

definition unavailable_note :: string where
  "unavailable_note =
     ''Note: MCP server tools are currently unavailable. '' @
     ''Provide a helpful response based on general knowledge.''"

text \<open>\<open>messages.create\<close> under \<open>wait_for\<close>: the request is recorded, the world answers.\<close>

definition send_completion ::
  "env \<Rightarrow> claude_tool list \<Rightarrow> message list \<Rightarrow> host \<Rightarrow> llm_outcome \<times> host" where
  "send_completion w tools msgs h =
     (create_message w (clock h) tools msgs,
      tick (emit (Completion tools msgs (mcp_session h)) h))"

text \<open>The handlers of \<open>get_claude_response\<close> and of \<open>handle_tool_use\<close>.\<close>

definition claude_error :: "py_exception \<Rightarrow> string" where
  "claude_error e =
     (if is_timeout e then ''Claude request timed out after 30 seconds''
      else if contains ''authentication'' (lower (type_name e)) then
        ''Authentication error with Claude API. Please check your ANTHROPIC_API_KEY.''
      else ''Error communicating with Claude: '' @ type_name e)"

definition tool_use_error :: "py_exception \<Rightarrow> string" where
  "tool_use_error e =
     (if is_timeout e then ''Tool execution timed out''
      else ''Error during tool execution: '' @ type_name e)"

text \<open>
  The loop of \<open>handle_tool_use\<close> over the content blocks: each tool-use block is one call
  of \<open>call_mcp_tool\<close> and one tool-result message appended to the history.
\<close>

fun execute_tool_calls ::
  "env \<Rightarrow> block list \<Rightarrow> message list \<Rightarrow> host \<Rightarrow> message list \<times> host" where
  "execute_tool_calls w [] msgs h = (msgs, h)"
| "execute_tool_calls w (TextBlock t # bs) msgs h = execute_tool_calls w bs msgs h"
| "execute_tool_calls w (ToolUseBlock tid tname tinput # bs) msgs h =
     (case call_mcp_tool w tname tinput h of
        (tool_result, h1) \<Rightarrow>
          execute_tool_calls w bs
            (msgs @ [Message ''user'' (ToolResults [(tid, tool_result)])]) h1)"

definition handle_tool_use ::
  "env \<Rightarrow> response \<Rightarrow> message list \<Rightarrow> host \<Rightarrow> string \<times> host" where
  "handle_tool_use w resp msgs h =
     (case execute_tool_calls w (content resp)
             (msgs @ [Message ''assistant'' (Blocks (content resp))]) h of
        (msgs2, h1) \<Rightarrow>
          (case send_completion w (format_tools_for_claude h1) msgs2 h1 of
             (LLMRaises e, h2) \<Rightarrow> (tool_use_error e, h2)
           | (LLMReturns final, h2) \<Rightarrow>
               (case first_text (content final) of
                  Inl e \<Rightarrow> (tool_use_error e, h2)
                | Inr t \<Rightarrow> (t, h2))))"

text \<open>
  \<open>get_claude_response\<close>. Line 234 reads \<open>response.content[0].text\<close> before the stop
  reason is looked at; the same expression is the result when no tool is used.
\<close>

definition get_claude_response :: "env \<Rightarrow> string \<Rightarrow> host \<Rightarrow> string \<times> host" where
  "get_claude_response w user_message h =
     (let claude_tools = format_tools_for_claude h;
          msgs = Message ''user'' (Text user_message) #
                   (if claude_tools = [] then [Message ''system'' (Text unavailable_note)]
                    else [])
      in case send_completion w claude_tools msgs h of
           (LLMRaises e, h1) \<Rightarrow> (claude_error e, h1)
         | (LLMReturns resp, h1) \<Rightarrow>
             (case first_text (content resp) of
                Inl e \<Rightarrow> (claude_error e, h1)
              | Inr t \<Rightarrow>
                  if stop_reason resp = ''tool_use'' \<and> claude_tools \<noteq> []
                  then handle_tool_use w resp msgs h1
                  else (t, h1)))"

subsection \<open>The interactive shell\<close>

text \<open>
  What \<open>input()\<close> gives: a line, or KeyboardInterrupt. At the end of the list the input
  is exhausted and \<open>input()\<close> raises EOFError.
\<close>

datatype stdin_event = Line string | CtrlC

fun run_interactive :: "env \<Rightarrow> stdin_event list \<Rightarrow> host \<Rightarrow> host" where
  "run_interactive w [] h = h"
| "run_interactive w (CtrlC # rest) h = h"
| "run_interactive w (Line l # rest) h =
     (let user_input = strip l
      in if lower user_input \<in> set [''quit'', ''exit'', ''q''] then h
         else if user_input = [] then run_interactive w rest h
         else if available_tools h = [] \<and> \<not> proceed_without_tools h then
           (case connect_to_mcp_server w h of
              (True, h1) \<Rightarrow>
                run_interactive w rest (snd (get_claude_response w user_input h1))
            | (False, h1) \<Rightarrow>
                (case rest of
                   [] \<Rightarrow> h1
                 | CtrlC # rest' \<Rightarrow> h1
                 | Line choice # rest' \<Rightarrow>
                     if lower (strip choice) \<in> set [''yes'', ''y''] then
                       run_interactive w rest'
                         (snd (get_claude_response w user_input
                                 (h1\<lparr>proceed_without_tools := True\<rparr>)))
                     else run_interactive w rest' h1))
         else run_interactive w rest (snd (get_claude_response w user_input h)))"

subsection \<open>Startup and exit\<close>

text \<open>What can leave a function of the startup path by being raised.\<close>

datatype raised = SystemExit int | KeyboardInterrupt | Exc py_exception

definition new_host :: host where
  "new_host =
     \<lparr>mcp_session = None, available_tools = [], exit_stack = False, max_retries = 3,
      base_delay = 1, proceed_without_tools = False, clock = 0, trace = []\<rparr>"

text \<open>
  \<open>__init__\<close>: \<open>key\<close> is what \<open>os.getenv("ANTHROPIC_API_KEY")\<close> returns, \<open>client\<close> is
  what constructing the Anthropic client does.
\<close>

definition init :: "string option \<Rightarrow> step \<Rightarrow> raised + host" where
  "init key client =
     (case key of
        None \<Rightarrow> Inl (SystemExit 1)
      | Some k \<Rightarrow>
          if k = [] then Inl (SystemExit 1)
          else (case client of
                  Raises e \<Rightarrow> Inl (SystemExit 1)
                | Ok \<Rightarrow> Inr new_host))"

definition cleanup :: "host \<Rightarrow> host" where
  "cleanup h = cleanup_connections h"

text \<open>
  \<open>main()\<close>. SystemExit is no \<open>Exception\<close>, so neither handler of \<open>main\<close> takes what
  \<open>__init__\<close> raises; the \<open>finally\<close> clause then finds \<open>host\<close> unbound and swallows that
  error, and the SystemExit goes on to the caller.
\<close>

definition main :: "env \<Rightarrow> string option \<Rightarrow> step \<Rightarrow> stdin_event list \<Rightarrow> raised + host" where
  "main w key client inputs =
     (case init key client of
        Inl r \<Rightarrow> Inl r
      | Inr h \<Rightarrow>
          (case connect_to_mcp_server w h of
             (True, h1) \<Rightarrow> Inr (cleanup (run_interactive w inputs h1))
           | (False, h1) \<Rightarrow> Inr (cleanup h1)))"

text \<open>
  \<open>try: body finally: fin\<close>. When the \<open>finally\<close> clause raises, that is what leaves the
  statement, whatever the body did.
\<close>

definition try_finally :: "raised + 'a \<Rightarrow> raised + unit \<Rightarrow> raised + 'a" where
  "try_finally body fin = (case fin of Inl r \<Rightarrow> Inl r | Inr u \<Rightarrow> body)"

text \<open>The two handlers of the script: KeyboardInterrupt and \<open>Exception\<close>.\<close>

definition script_handlers :: "raised + 'a \<Rightarrow> raised + unit" where
  "script_handlers body =
     (case body of
        Inl KeyboardInterrupt \<Rightarrow> Inr ()
      | Inl (Exc e) \<Rightarrow> Inr ()
      | Inl (SystemExit n) \<Rightarrow> Inl (SystemExit n)
      | Inr v \<Rightarrow> Inr ())"

text \<open>The script under \<open>if __name__ == "__main__"\<close> (lines 404 to 412).\<close>

definition script :: "env \<Rightarrow> string option \<Rightarrow> step \<Rightarrow> stdin_event list \<Rightarrow> raised + unit" where
  "script w key client inputs =
     try_finally (script_handlers (main w key client inputs)) (Inl (SystemExit 0))"

text \<open>The exit status of the interpreter for the way the script ends.\<close>

definition exit_status :: "raised + unit \<Rightarrow> int" where
  "exit_status r =
     (case r of
        Inr u \<Rightarrow> 0
      | Inl (SystemExit n) \<Rightarrow> n
      | Inl KeyboardInterrupt \<Rightarrow> 130
      | Inl (Exc e) \<Rightarrow> 1)"

section \<open>The tool provider\<close>

text \<open>
  What \<open>response.json()\<close> can return. An object is the list of its items, in the order of
  the dictionary, each key once.
\<close>

datatype json =
    JNull
  | JBool bool
  | JNum real
  | JStr string
  | JArr "json list"
  | JObj "(string \<times> json) list"

text \<open>Python's truth value of a JSON value.\<close>

fun truthy :: "json \<Rightarrow> bool" where
  "truthy JNull = False"
| "truthy (JBool b) = b"
| "truthy (JNum x) = (x \<noteq> 0)"
| "truthy (JStr s) = (s \<noteq> [])"
| "truthy (JArr xs) = (xs \<noteq> [])"
| "truthy (JObj kvs) = (kvs \<noteq> [])"

definition type_error :: "string \<Rightarrow> py_exception" where
  "type_error m = \<lparr>is_timeout = False, type_name = ''TypeError'', message = m\<rparr>"

fun class_name :: "json \<Rightarrow> string" where
  "class_name JNull = ''NoneType''"
| "class_name (JBool b) = ''bool''"
| "class_name (JNum x) = ''float''"
| "class_name (JStr s) = ''str''"
| "class_name (JArr xs) = ''list''"
| "class_name (JObj kvs) = ''dict''"

text \<open>\<open>key in data\<close> for a string \<open>key\<close>.\<close>

fun py_in :: "string \<Rightarrow> json \<Rightarrow> py_exception + bool" where
  "py_in k (JObj kvs) = Inr (k \<in> set (map fst kvs))"
| "py_in k (JArr xs) = Inr (JStr k \<in> set xs)"
| "py_in k (JStr s) = Inr (contains k s)"
| "py_in k v =
     Inl (type_error (''argument of type '' @ quoted (class_name v) @ '' is not iterable''))"

text \<open>\<open>data[key]\<close> for a string \<open>key\<close> that is in \<open>data\<close>.\<close>

fun py_item :: "json \<Rightarrow> string \<Rightarrow> py_exception + json" where
  "py_item (JObj kvs) k =
     (case map_of kvs k of
        Some v \<Rightarrow> Inr v
      | None \<Rightarrow> Inl \<lparr>is_timeout = False, type_name = ''KeyError'', message = quoted k\<rparr>)"
| "py_item (JArr xs) k = Inl (type_error ''list indices must be integers or slices, not str'')"
| "py_item (JStr s) k = Inl (type_error (''string indices must be integers, not '' @ quoted ''str''))"
| "py_item v k =
     Inl (type_error (quoted (class_name v) @ '' object is not subscriptable''))"

text \<open>\<open>data.get(key, default)\<close>: only a dictionary has the method.\<close>

fun py_get :: "json \<Rightarrow> string \<Rightarrow> json \<Rightarrow> py_exception + json" where
  "py_get (JObj kvs) k d = Inr (case map_of kvs k of Some v \<Rightarrow> v | None \<Rightarrow> d)"
| "py_get v k d = Inl (no_attribute (class_name v) ''get'')"

text \<open>
  \<open>matches[:5]\<close> as the list the loop runs over. A slice of a string is a string, whose
  items are its characters; a dictionary and a number cannot be sliced.
\<close>

fun first_five :: "json \<Rightarrow> py_exception + json list" where
  "first_five (JArr xs) = Inr (take 5 xs)"
| "first_five (JStr s) = Inr (map (\<lambda>c. JStr [c]) (take 5 s))"
| "first_five (JObj kvs) = Inl (type_error (''unhashable type: '' @ quoted ''slice''))"
| "first_five v =
     Inl (type_error (quoted (class_name v) @ '' object is not subscriptable''))"

text \<open>
  \<open>str(v)\<close> inside an f-string. How Python prints a number, a list or a dictionary is
  not modelled: \<open>repr\<close> stands for it.
\<close>

fun py_str :: "(json \<Rightarrow> string) \<Rightarrow> json \<Rightarrow> string" where
  "py_str repr (JStr s) = s"
| "py_str repr JNull = ''None''"
| "py_str repr (JBool b) = (if b then ''True'' else ''False'')"
| "py_str repr v = repr v"

text \<open>\<open>str(n)\<close> for a counter \<open>n\<close>.\<close>

fun str_nat :: "nat \<Rightarrow> string" where
  "str_nat n =
     (if n < 10 then [''0123456789'' ! n]
      else str_nat (n div 10) @ [''0123456789'' ! (n mod 10)])"

declare str_nat.simps [simp del]

text \<open>Running the next statement on the value of an expression that may raise.\<close>

definition and_then :: "'e + 'a \<Rightarrow> ('a \<Rightarrow> 'e + 'b) \<Rightarrow> 'e + 'b" where
  "and_then r f = (case r of Inl e \<Rightarrow> Inl e | Inr v \<Rightarrow> f v)"

text \<open>
  What \<open>requests.get\<close>, \<open>raise_for_status\<close> and \<open>json\<close> do together: a RequestException
  with its text, another exception, or the decoded body.
\<close>

datatype http_outcome = RequestException string | HttpRaises py_exception | HttpJson json

type_synonym params = "(string \<times> string) list"

text \<open>
  \<open>make_api_request\<close>. \<open>api_key\<close> is the module constant, \<open>net\<close> answers a request from
  its query parameters. The second component lists the requests sent.
\<close>

definition make_api_request ::
  "string option \<Rightarrow> (params \<Rightarrow> http_outcome) \<Rightarrow> string \<Rightarrow> params
     \<Rightarrow> (py_exception + json) \<times> params list" where
  "make_api_request api_key net function kwargs =
     (if api_key = None \<or> api_key = Some [] then
        (Inr (JObj [(''error'', JStr ''Alpha Vantage API key not configured'')]), [])
      else
        (let ps = [(''function'', function), (''apikey'', the api_key)] @ kwargs
         in case net ps of
              RequestException m \<Rightarrow>
                (Inr (JObj [(''error'', JStr (''API request failed: '' @ m))]), [ps])
            | HttpRaises e \<Rightarrow> (Inl e, [ps])
            | HttpJson j \<Rightarrow> (Inr j, [ps])))"

definition bullet :: string where
  "bullet = [CHR 0xE2, CHR 0x80, CHR 0xA2]"

definition newline :: string where
  "newline = [CHR 0x0A]"

text \<open>\<open>get_stock_quote\<close> after the request: from the data to the text.\<close>

definition quote_text :: "(json \<Rightarrow> string) \<Rightarrow> string \<Rightarrow> json \<Rightarrow> py_exception + string" where
  "quote_text repr symbol data =
     and_then (py_in ''error'' data) (\<lambda>err.
       if err then and_then (py_item data ''error'') (\<lambda>v. Inr (''Error: '' @ py_str repr v))
       else and_then (py_in ''Error Message'' data) (\<lambda>msg.
         if msg then
           Inr (''Error: Invalid symbol '' @ quoted symbol @ '' or API limit reached'')
         else and_then (py_get data ''Global Quote'' (JObj [])) (\<lambda>q.
           if \<not> truthy q then Inr (''No data found for symbol: '' @ symbol)
           else and_then (py_get q ''05. price'' (JStr ''N/A'')) (\<lambda>price.
                and_then (py_get q ''09. change'' (JStr ''N/A'')) (\<lambda>change.
                and_then (py_get q ''10. change percent'' (JStr ''N/A'')) (\<lambda>change_percent.
                and_then (py_get q ''06. volume'' (JStr ''N/A'')) (\<lambda>volume.
                and_then (py_get q ''07. latest trading day'' (JStr ''N/A'')) (\<lambda>day.
                  Inr (''Stock Quote for '' @ symbol @ '':'' @ newline @
                       bullet @ '' Current Price: $'' @ py_str repr price @ newline @
                       bullet @ '' Change: '' @ py_str repr change @
                         '' ('' @ py_str repr change_percent @ '')'' @ newline @
                       bullet @ '' Volume: '' @ py_str repr volume @ newline @
                       bullet @ '' Last Updated: '' @ py_str repr day @ newline)))))))))"

definition get_stock_quote ::
  "string option \<Rightarrow> (params \<Rightarrow> http_outcome) \<Rightarrow> (json \<Rightarrow> string) \<Rightarrow> string
     \<Rightarrow> (py_exception + string) \<times> params list" where
  "get_stock_quote api_key net repr symbol =
     (case make_api_request api_key net ''GLOBAL_QUOTE'' [(''symbol'', upper symbol)] of
        (data, sent) \<Rightarrow> (and_then data (quote_text repr (upper symbol)), sent))"

text \<open>One line of the search result, and the loop over the enumerated matches.\<close>

definition match_line ::
  "(json \<Rightarrow> string) \<Rightarrow> nat \<Rightarrow> json \<Rightarrow> py_exception + string" where
  "match_line repr i m =
     and_then (py_get m ''1. symbol'' (JStr ''N/A'')) (\<lambda>symbol.
     and_then (py_get m ''2. name'' (JStr ''N/A'')) (\<lambda>nm.
       Inr (str_nat i @ ''. '' @ py_str repr symbol @ '' - '' @ py_str repr nm @ newline)))"

fun match_lines ::
  "(json \<Rightarrow> string) \<Rightarrow> nat \<Rightarrow> json list \<Rightarrow> string \<Rightarrow> py_exception + string" where
  "match_lines repr i [] result = Inr result"
| "match_lines repr i (m # ms) result =
     and_then (match_line repr i m) (\<lambda>l. match_lines repr (Suc i) ms (result @ l))"

definition search_header :: "string \<Rightarrow> string" where
  "search_header query = ''Search results for '' @ quoted query @ '':'' @ newline @ newline"

text \<open>\<open>search_stocks\<close> after the request: from the data to the text.\<close>

definition search_text :: "(json \<Rightarrow> string) \<Rightarrow> string \<Rightarrow> json \<Rightarrow> py_exception + string" where
  "search_text repr query data =
     and_then (py_in ''error'' data) (\<lambda>err.
       if err then and_then (py_item data ''error'') (\<lambda>v. Inr (''Error: '' @ py_str repr v))
       else and_then (py_get data ''bestMatches'' (JArr [])) (\<lambda>matches.
         if \<not> truthy matches then Inr (''No stocks found matching: '' @ query)
         else and_then (first_five matches) (\<lambda>ms.
                match_lines repr 1 ms (search_header query))))"

definition search_stocks ::
  "string option \<Rightarrow> (params \<Rightarrow> http_outcome) \<Rightarrow> (json \<Rightarrow> string) \<Rightarrow> string
     \<Rightarrow> (py_exception + string) \<times> params list" where
  "search_stocks api_key net repr query =
     (case make_api_request api_key net ''SYMBOL_SEARCH'' [(''keywords'', query)] of
        (data, sent) \<Rightarrow> (and_then data (search_text repr query), sent))"

section \<open>Example inputs\<close>

definition example_tool :: tool where
  "example_tool =
     \<lparr>tool_name = ''get_stock_quote'', tool_description = ''Get stock quote'',
      tool_inputSchema = ''object''\<rparr>"

text \<open>A host that has connected and discovered one tool.\<close>

definition connected_host :: host where
  "connected_host =
     new_host\<lparr>mcp_session := Some \<lparr>sid = 1, listed = Some [example_tool], raised = []\<rparr>,
              available_tools := [example_tool], exit_stack := True, clock := 4,
              trace := [Attempt 1]\<rparr>"

text \<open>A world in which every call raises the same exception.\<close>

definition dead_env :: "py_exception \<Rightarrow> env" where
  "dead_env e =
     \<lparr>sse_connect = (\<lambda>t. Raises e), session_enter = (\<lambda>t. Raises e),
      initialize = (\<lambda>t. Raises e), list_tools = (\<lambda>t. ListRaises e),
      call_tool = (\<lambda>t n a. CallRaises e), create_message = (\<lambda>t c m. LLMRaises e)\<rparr>"

definition peer_closed :: py_exception where
  "peer_closed =
     \<lparr>is_timeout = False, type_name = ''Exception'',
      message = ''RemoteProtocolError: peer closed connection''\<rparr>"

definition connection_failed :: py_exception where
  "connection_failed =
     \<lparr>is_timeout = False, type_name = ''Exception'', message = ''Connection failed''\<rparr>"

section \<open>Notions the properties are stated with\<close>

text \<open>
  Every attempt of the list fails, each one run on the host as the attempts before it and
  the steps after their failure left it.
\<close>

fun attempts_fail :: "env \<Rightarrow> nat list \<Rightarrow> host \<Rightarrow> bool" where
  "attempts_fail w [] h = True"
| "attempts_fail w (attempt # rest) h =
     (case connect_attempt w attempt h of
        (ok, h1) \<Rightarrow> \<not> ok \<and> attempts_fail w rest (after_failure attempt h1))"

text \<open>
  The events of \<open>m\<close> connection attempts with base delay \<open>b\<close>: before attempt \<open>i\<close>, for
  \<open>i > 1\<close>, a sleep of \<open>b * 2 ^ (i - 2)\<close> seconds; nothing after the last attempt.
\<close>

definition backoff_schedule :: "real \<Rightarrow> nat \<Rightarrow> event list" where
  "backoff_schedule b m =
     concat (map (\<lambda>i. (if 1 < i then [Sleep (b * 2 ^ (i - 2))] else []) @ [Attempt i])
               [1 ..< Suc m])"

text \<open>
  The line of the search result for the match \<open>row\<close> numbered \<open>i\<close>; a missing field is
  shown as \<open>N/A\<close>.
\<close>

definition match_field :: "(string \<times> json) list \<Rightarrow> string \<Rightarrow> json" where
  "match_field row k = (case map_of row k of Some v \<Rightarrow> v | None \<Rightarrow> JStr ''N/A'')"

definition match_entry :: "(json \<Rightarrow> string) \<Rightarrow> nat \<Rightarrow> (string \<times> json) list \<Rightarrow> string" where
  "match_entry repr i row =
     str_nat i @ ''. '' @ py_str repr (match_field row ''1. symbol'') @ '' - '' @
     py_str repr (match_field row ''2. name'') @ newline"

definition example_match :: "string \<Rightarrow> json" where
  "example_match s = JObj [(''1. symbol'', JStr s), (''2. name'', JStr (s @ '' Inc''))]"

definition six_matches :: json where
  "six_matches =
     JObj [(''bestMatches'',
            JArr [example_match ''A'', example_match ''B'', example_match ''C'',
                  example_match ''D'', example_match ''E'', example_match ''F''])]"

text \<open>
  The tool invocations of a trace in order, the invocations and the call identifiers that
  the tool-use blocks of a response ask for, and the identifiers that the tool-result
  messages of a history carry.
\<close>

fun tool_calls :: "event list \<Rightarrow> (string \<times> arguments) list" where
  "tool_calls [] = []"
| "tool_calls (ToolCall tname args # evs) = (tname, args) # tool_calls evs"
| "tool_calls (ev # evs) = tool_calls evs"

fun requested_calls :: "block list \<Rightarrow> (string \<times> arguments) list" where
  "requested_calls [] = []"
| "requested_calls (ToolUseBlock tid tname tinput # bs) = (tname, tinput) # requested_calls bs"
| "requested_calls (b # bs) = requested_calls bs"

fun requested_ids :: "block list \<Rightarrow> string list" where
  "requested_ids [] = []"
| "requested_ids (ToolUseBlock tid tname tinput # bs) = tid # requested_ids bs"
| "requested_ids (b # bs) = requested_ids bs"

fun result_ids :: "message list \<Rightarrow> string list" where
  "result_ids [] = []"
| "result_ids (Message r (ToolResults rs) # ms) = map fst rs @ result_ids ms"
| "result_ids (m # ms) = result_ids ms"

text \<open>
  The catalog invariant, in the words of the specification. A descriptor offered to the
  model is that of a listed tool when its name, its description and its input schema are
  the tool's own. A failure is of the connection class when it is not a timeout and its
  type name or its message, in lower case, contains one of the keywords that the
  specification names for connection-level failures. A connection is live as long as no
  tool call on its session has failed in this way.
\<close>

definition same_descriptor :: "claude_tool \<Rightarrow> tool \<Rightarrow> bool" where
  "same_descriptor c t =
     (name c = tool_name t \<and> description c = tool_description t \<and>
      input_schema c = tool_inputSchema t)"

definition spec_connection_keywords :: "string list" where
  "spec_connection_keywords =
     [''connection'', ''protocol'', ''closed'', ''reset'', ''refused'', ''unreachable'',
      ''timeout'', ''network'']"

definition connection_class :: "py_exception \<Rightarrow> bool" where
  "connection_class e =
     (\<not> is_timeout e \<and>
      list_ex (\<lambda>k. contains k (lower (type_name e)) \<or> contains k (lower (message e)))
        spec_connection_keywords)"

definition live_session :: "session \<Rightarrow> bool" where
  "live_session s = (\<not> list_ex connection_class (raised s))"

text \<open>
  A completion request is confirmed when it offers no tool, or when the session held at
  that moment is live and the request offers, one for one and in order, the descriptors of
  the tools that the last \<open>list_tools\<close> to return on that session returned. The catalog
  of a host is confirmed when it is empty, or is what the last \<open>list_tools\<close> to return on
  the live session of the host returned. A host is sound when its catalog and all the
  requests of its trace are confirmed.
\<close>

fun confirmed :: "event \<Rightarrow> bool" where
  "confirmed (Completion tools msgs sess) =
     (tools = [] \<or>
      (case sess of
         None \<Rightarrow> False
       | Some s \<Rightarrow>
           live_session s \<and>
           (case listed s of None \<Rightarrow> False | Some ts \<Rightarrow> list_all2 same_descriptor tools ts)))"
| "confirmed ev = True"

definition catalog_confirmed :: "host \<Rightarrow> bool" where
  "catalog_confirmed h =
     (available_tools h = [] \<or>
      (case mcp_session h of
         None \<Rightarrow> False
       | Some s \<Rightarrow> live_session s \<and> listed s = Some (available_tools h)))"

definition sound :: "host \<Rightarrow> bool" where
  "sound h = (catalog_confirmed h \<and> list_all confirmed (trace h))"

fun offers_tools :: "event \<Rightarrow> bool" where
  "offers_tools (Completion tools msgs sess) = (tools \<noteq> [])"
| "offers_tools ev = False"

text \<open>Responses of the model and a world for the examples.\<close>

definition plain_answer :: response where
  "plain_answer = \<lparr>stop_reason = ''end_turn'', content = [TextBlock ''Apple is at $150.00'']\<rparr>"

definition first_answer :: response where
  "first_answer =
     \<lparr>stop_reason = ''tool_use'',
      content = [TextBlock ''Let me check.'',
                 ToolUseBlock ''tool_123'' ''get_stock_quote'' [(''symbol'', ''AAPL'')]]\<rparr>"

definition bare_tool_use :: response where
  "bare_tool_use =
     \<lparr>stop_reason = ''tool_use'',
      content = [ToolUseBlock ''tool_123'' ''get_stock_quote'' [(''symbol'', ''AAPL'')]]\<rparr>"

definition second_answer :: response where
  "second_answer =
     \<lparr>stop_reason = ''tool_use'',
      content = [TextBlock ''Apple is at $150.00'',
                 ToolUseBlock ''tool_456'' ''get_stock_quote'' [(''symbol'', ''MSFT'')]]\<rparr>"

text \<open>A world in which everything works and the model always gives the same answer.\<close>

definition live_env :: "response \<Rightarrow> env" where
  "live_env r =
     \<lparr>sse_connect = (\<lambda>t. Ok), session_enter = (\<lambda>t. Ok), initialize = (\<lambda>t. Ok),
      list_tools = (\<lambda>t. ListReturns [example_tool]),
      call_tool = (\<lambda>t n a. CallReturns [TextContent ''AAPL: $150.00'']),
      create_message = (\<lambda>t c m. LLMReturns r)\<rparr>"

text \<open>A second answer that asks for another tool and says nothing else.\<close>

definition follow_up_tool_use :: response where
  "follow_up_tool_use =
     \<lparr>stop_reason = ''tool_use'',
      content = [ToolUseBlock ''tool_456'' ''get_stock_quote'' [(''symbol'', ''MSFT'')]]\<rparr>"

text \<open>A world in which the model asks for a tool and the peer has closed the connection.\<close>

definition dropped_env :: env where
  "dropped_env = (live_env first_answer)\<lparr>call_tool := (\<lambda>t n a. CallRaises peer_closed)\<rparr>"

text \<open>A descriptor that is not the one of the example tool.\<close>

definition blank_descriptor :: claude_tool where
  "blank_descriptor = \<lparr>name = [], description = [], input_schema = []\<rparr>"

section \<open>Tool invocation: failures become text\<close>

lemmas string_eval = lower_def lower_char_def connection_error_def connection_keywords_def

lemma call_body_catalog:
  "call_body w tname args h = (r, h1) \<Longrightarrow> available_tools h1 = available_tools h"
  by (auto simp: call_body_def emit_def tick_def Let_def
           split: option.splits call_outcome.splits list.splits)

text \<open>
  Claim C1, as the code has it. \<open>call_mcp_tool\<close> is a total function into texts: whatever
  exception \<open>e\<close> the \<open>try\<close> block raises, a text comes back. The first handler takes
  every \<open>asyncio.TimeoutError\<close>: the text is the timed-out message and the catalog stays
  as it was. For every other exception, a match with the connection keywords empties the
  catalog and gives the fixed server-unavailable message; without a match the text names
  the error type and the catalog stays as it was.
\<close>

theorem call_mcp_tool_on_exception:
  assumes "fst (call_body w tname args h) = Inl e"
  shows "fst (call_mcp_tool w tname args h) =
           (if is_timeout e
            then ''Tool '' @ tname @
                 '' timed out after 30 seconds - MCP server may be unavailable''
            else if connection_error e then server_unavailable
            else ''Error calling tool '' @ tname @ '': '' @ type_name e) \<and>
         available_tools (snd (call_mcp_tool w tname args h)) =
           (if \<not> is_timeout e \<and> connection_error e then [] else available_tools h)"
proof -
  obtain h1 where b: "call_body w tname args h = (Inl e, h1)"
    using assms by (cases "call_body w tname args h") auto
  have "available_tools h1 = available_tools h"
    using b by (rule call_body_catalog)
  then show ?thesis
    by (simp add: call_mcp_tool_def b tool_error_def)
qed

theorem call_mcp_tool_on_exception_witness:
  "fst (call_body (dead_env peer_closed) ''get_stock_quote'' [(''symbol'', ''AAPL'')]
          connected_host) = Inl peer_closed \<and>
   fst (call_mcp_tool (dead_env peer_closed) ''get_stock_quote'' [(''symbol'', ''AAPL'')]
          connected_host) = server_unavailable \<and>
   available_tools (snd (call_mcp_tool (dead_env peer_closed) ''get_stock_quote''
          [(''symbol'', ''AAPL'')] connected_host)) = []"
proof -
  have b: "fst (call_body (dead_env peer_closed) ''get_stock_quote'' [(''symbol'', ''AAPL'')]
             connected_host) = Inl peer_closed"
    by (simp add: call_body_def dead_env_def connected_host_def new_host_def emit_def tick_def)
  have c: "connection_error peer_closed" "\<not> is_timeout peer_closed"
    by (simp_all add: peer_closed_def string_eval)
  show ?thesis
    using call_mcp_tool_on_exception [OF b] b c by simp
qed

text \<open>
  Claim C1 as it is stated fails for a timeout: the type name \<open>TimeoutError\<close> matches the
  keyword \<open>timeout\<close>, yet the catalog is kept and the text is not the server-unavailable
  message.
\<close>

theorem call_mcp_tool_timeout_counterexample:
  "fst (call_body (dead_env timeout_error) ''get_stock_quote'' [(''symbol'', ''AAPL'')]
          connected_host) = Inl timeout_error \<and>
   connection_error timeout_error \<and>
   available_tools (snd (call_mcp_tool (dead_env timeout_error) ''get_stock_quote''
          [(''symbol'', ''AAPL'')] connected_host)) = [example_tool] \<and>
   fst (call_mcp_tool (dead_env timeout_error) ''get_stock_quote'' [(''symbol'', ''AAPL'')]
          connected_host) \<noteq> server_unavailable"
proof -
  have f: "fst (call_body (dead_env timeout_error) ''get_stock_quote'' [(''symbol'', ''AAPL'')]
             connected_host) = Inl timeout_error"
    by (simp add: call_body_def dead_env_def connected_host_def new_host_def emit_def tick_def)
  then obtain h1 where
    b: "call_body (dead_env timeout_error) ''get_stock_quote'' [(''symbol'', ''AAPL'')]
          connected_host = (Inl timeout_error, h1)"
    by (cases "call_body (dead_env timeout_error) ''get_stock_quote'' [(''symbol'', ''AAPL'')]
                 connected_host") auto
  have a: "available_tools h1 = [example_tool]"
    using call_body_catalog [OF b] by (simp add: connected_host_def)
  have c: "connection_error timeout_error"
    by (simp add: timeout_error_def string_eval)
  have t: "is_timeout timeout_error"
    by (simp add: timeout_error_def)
  show ?thesis
    unfolding call_mcp_tool_def b
    by (simp add: a c t tool_error_def server_unavailable_def)
qed

section \<open>Catalog discovery\<close>

text \<open>
  Claim C5. \<open>discover_tools\<close> is called only by \<open>connect_to_mcp_server\<close>, which runs on a
  host whose catalog is empty. On such a host, every outcome of the list request other
  than a non-empty descriptor list (an empty list, a timeout, any other exception) makes
  \<open>discover_tools\<close> return False with the catalog empty: the empty list ends exactly as
  a failed request does.
\<close>

theorem discover_tools_failure:
  assumes "available_tools h = []"
    and "\<forall>ts. list_tools w (clock h) = ListReturns ts \<longrightarrow> ts = []"
  shows "fst (discover_tools w h) = False \<and> available_tools (snd (discover_tools w h)) = []"
  using assms
  by (auto simp: discover_tools_def tick_def split: option.splits list_outcome.splits)

theorem discover_tools_failure_witness:
  "available_tools (new_host\<lparr>mcp_session := Some \<lparr>sid = 1, listed = None, raised = []\<rparr>\<rparr>) = [] \<and>
   list_tools ((dead_env timeout_error)\<lparr>list_tools := (\<lambda>t. ListReturns [])\<rparr>)
     (clock (new_host\<lparr>mcp_session := Some \<lparr>sid = 1, listed = None, raised = []\<rparr>\<rparr>)) = ListReturns [] \<and>
   fst (discover_tools ((dead_env timeout_error)\<lparr>list_tools := (\<lambda>t. ListReturns [])\<rparr>)
          (new_host\<lparr>mcp_session := Some \<lparr>sid = 1, listed = None, raised = []\<rparr>\<rparr>)) = False \<and>
   available_tools
     (snd (discover_tools ((dead_env timeout_error)\<lparr>list_tools := (\<lambda>t. ListReturns [])\<rparr>)
          (new_host\<lparr>mcp_session := Some \<lparr>sid = 1, listed = None, raised = []\<rparr>\<rparr>))) = []"
proof -
  have a: "available_tools (new_host\<lparr>mcp_session := Some \<lparr>sid = 1, listed = None, raised = []\<rparr>\<rparr>) = []"
    by (simp add: new_host_def)
  have b: "\<forall>ts. list_tools ((dead_env timeout_error)\<lparr>list_tools := (\<lambda>t. ListReturns [])\<rparr>)
          (clock (new_host\<lparr>mcp_session := Some \<lparr>sid = 1, listed = None, raised = []\<rparr>\<rparr>)) = ListReturns ts
        \<longrightarrow> ts = []"
    by (simp add: dead_env_def)
  show ?thesis
    using discover_tools_failure [OF a b] a by (simp add: dead_env_def)
qed

section \<open>Startup without the API key\<close>

text \<open>
  Claim C8, as the code has it. Without \<open>ANTHROPIC_API_KEY\<close> the constructor raises
  \<open>SystemExit(1)\<close> and \<open>main\<close> passes it on, so the host ends during startup: nothing is
  connected and nothing is read. The script's \<open>finally\<close> clause then raises
  \<open>SystemExit(0)\<close> in its place, and the exit status of the process is 0.
\<close>

theorem missing_key_ends_startup_with_status_0:
  "main w None client inputs = Inl (SystemExit 1) \<and>
   script w None client inputs = Inl (SystemExit 0) \<and>
   exit_status (script w None client inputs) = 0"
  by (simp add: main_def init_def script_def try_finally_def exit_status_def)

text \<open>Claim C8 as it is stated fails: the exit status is not nonzero.\<close>

theorem missing_key_exit_status_counterexample:
  "\<not> exit_status (script (dead_env connection_failed) None Ok [Line ''quit'']) \<noteq> 0"
  by (simp add: script_def try_finally_def exit_status_def)

section \<open>The stock quote without the market-data key\<close>

text \<open>
  Claim C9. With \<open>ALPHA_VANTAGE_API_KEY\<close> unset, \<open>get_stock_quote\<close> returns, for every
  symbol and whatever the network would answer, a text that contains "not configured",
  and no request is sent.
\<close>

theorem stock_quote_not_configured:
  "fst (get_stock_quote None net repr symbol) =
     Inr ''Error: Alpha Vantage API key not configured'' \<and>
   contains ''not configured'' ''Error: Alpha Vantage API key not configured'' \<and>
   snd (get_stock_quote None net repr symbol) = []"
  by (simp add: get_stock_quote_def make_api_request_def quote_text_def and_then_def)

section \<open>Connecting with bounded retry\<close>

lemma connect_attempt_trace:
  "trace (snd (connect_attempt w i h)) = trace h @ [Attempt i]"
  by (simp add: connect_attempt_def discover_tools_def cleanup_connections_def emit_def tick_def
        Let_def split: step.splits list_outcome.splits option.splits)

lemma connect_attempt_config:
  "max_retries (snd (connect_attempt w i h)) = max_retries h \<and>
   base_delay (snd (connect_attempt w i h)) = base_delay h"
  by (simp add: connect_attempt_def discover_tools_def cleanup_connections_def emit_def tick_def
        Let_def split: step.splits list_outcome.splits option.splits)

lemma connect_attempt_catalog:
  "available_tools h = [] \<Longrightarrow> \<not> fst (connect_attempt w i h) \<Longrightarrow>
   available_tools (snd (connect_attempt w i h)) = []"
  by (auto simp: connect_attempt_def discover_tools_def cleanup_connections_def emit_def tick_def
        Let_def split: step.splits list_outcome.splits option.splits if_splits)

lemma after_failure_fields:
  "available_tools (after_failure i h) = available_tools h \<and>
   max_retries (after_failure i h) = max_retries h \<and>
   base_delay (after_failure i h) = base_delay h \<and>
   trace (after_failure i h) =
     trace h @ (if i < max_retries h then [Sleep (base_delay h * 2 ^ (i - 1))] else [])"
  by (simp add: after_failure_def cleanup_connections_def emit_def Let_def)

lemma connect_loop_exhausted:
  "available_tools h = [] \<Longrightarrow> attempts_fail w is h \<Longrightarrow>
   fst (connect_loop w is h) = False \<and> available_tools (snd (connect_loop w is h)) = []"
proof (induction "is" arbitrary: h)
  case Nil
  then show ?case by simp
next
  case (Cons i rest)
  obtain ok h1 where a: "connect_attempt w i h = (ok, h1)"
    by (cases "connect_attempt w i h") auto
  from Cons.prems(2) a have nok: "\<not> ok" and later: "attempts_fail w rest (after_failure i h1)"
    by auto
  have "available_tools h1 = []"
    using connect_attempt_catalog [of h w i] Cons.prems(1) a nok by simp
  then have "available_tools (after_failure i h1) = []"
    by (simp add: after_failure_fields)
  from Cons.IH [OF this later] show ?case
    using a nok by simp
qed

text \<open>
  Claim C3. \<open>connect_to_mcp_server\<close> runs on a host whose catalog is empty (a new host, or
  the interactive shell when no tool is available). If each of the \<open>max_retries\<close> attempts
  fails, it returns False and the catalog is empty when it returns.
\<close>

theorem connect_exhausted:
  assumes "available_tools h = []"
    and "attempts_fail w [1 ..< max_retries h + 1] h"
  shows "fst (connect_to_mcp_server w h) = False \<and>
         available_tools (snd (connect_to_mcp_server w h)) = []"
  using connect_loop_exhausted [OF assms] by (simp add: connect_to_mcp_server_def)

lemma dead_attempt:
  "connect_attempt (dead_env e) i h =
     (False, tick ((if exit_stack h then cleanup_connections (emit (Attempt i) h)
                    else emit (Attempt i) h)\<lparr>exit_stack := True\<rparr>))"
  by (simp add: connect_attempt_def dead_env_def emit_def tick_def cleanup_connections_def Let_def)

theorem connect_exhausted_witness:
  "available_tools new_host = [] \<and>
   attempts_fail (dead_env connection_failed) [1 ..< max_retries new_host + 1] new_host \<and>
   fst (connect_to_mcp_server (dead_env connection_failed) new_host) = False \<and>
   available_tools (snd (connect_to_mcp_server (dead_env connection_failed) new_host)) = []"
proof -
  have a: "available_tools new_host = []"
    by (simp add: new_host_def)
  have n: "[1 ..< max_retries new_host + 1] = [1, 2, 3]"
    by (simp add: new_host_def upt_rec)
  have b: "attempts_fail (dead_env connection_failed) [1 ..< max_retries new_host + 1] new_host"
    unfolding n by (simp add: dead_attempt)
  show ?thesis
    using connect_exhausted [OF a b] a b by simp
qed

lemma connect_loop_schedule:
  assumes "1 \<le> k" and "k \<le> max_retries h"
  shows "\<exists>m. k \<le> m \<and> m \<le> max_retries h \<and>
           trace (snd (connect_loop w [k ..< Suc (max_retries h)] h)) =
             trace h @ Attempt k #
               concat (map (\<lambda>i. [Sleep (base_delay h * 2 ^ (i - 2)), Attempt i]) [Suc k ..< Suc m]) \<and>
           (\<not> fst (connect_loop w [k ..< Suc (max_retries h)] h) \<longrightarrow> m = max_retries h)"
  using assms
proof (induction "max_retries h - k" arbitrary: k h)
  case 0
  then have k: "k = max_retries h" by simp
  obtain ok h1 where a: "connect_attempt w (max_retries h) h = (ok, h1)"
    by (cases "connect_attempt w (max_retries h) h") auto
  have t: "trace h1 = trace h @ [Attempt (max_retries h)]"
    using connect_attempt_trace [of w "max_retries h" h] a by simp
  have c: "max_retries h1 = max_retries h"
    using connect_attempt_config [of w "max_retries h" h] a by simp
  show ?case
    unfolding k
    by (rule exI [of _ "max_retries h"]) (cases ok; simp add: a t c after_failure_fields)
next
  case (Suc d)
  then have lt: "k < max_retries h" by simp
  obtain ok h1 where a: "connect_attempt w k h = (ok, h1)"
    by (cases "connect_attempt w k h") auto
  have t: "trace h1 = trace h @ [Attempt k]"
    using connect_attempt_trace [of w k h] a by simp
  have c: "max_retries h1 = max_retries h" "base_delay h1 = base_delay h"
    using connect_attempt_config [of w k h] a by simp_all
  have l: "[k ..< Suc (max_retries h)] = k # [Suc k ..< Suc (max_retries h)]"
    using lt by (simp add: upt_conv_Cons)
  show ?case
  proof (cases ok)
    case True
    show ?thesis
      unfolding l
      by (rule exI [of _ k]) (use True lt in \<open>simp add: a t\<close>)
  next
    case False
    define h2 where "h2 = after_failure k h1"
    have c2: "max_retries h2 = max_retries h" "base_delay h2 = base_delay h"
      by (simp_all add: h2_def after_failure_fields c)
    have t2: "trace h2 = trace h @ [Attempt k, Sleep (base_delay h * 2 ^ (k - 1))]"
      using lt by (simp add: h2_def after_failure_fields c t)
    have d: "d = max_retries h2 - Suc k"
      using Suc.hyps(2) c2 by simp
    have "1 \<le> Suc k" "Suc k \<le> max_retries h2"
      using lt c2 by simp_all
    from Suc.hyps(1) [OF d this] obtain m where
      m: "Suc k \<le> m" "m \<le> max_retries h2"
         "trace (snd (connect_loop w [Suc k ..< Suc (max_retries h2)] h2)) =
            trace h2 @ Attempt (Suc k) #
              concat (map (\<lambda>i. [Sleep (base_delay h2 * 2 ^ (i - 2)), Attempt i])
                        [Suc (Suc k) ..< Suc m])"
         "\<not> fst (connect_loop w [Suc k ..< Suc (max_retries h2)] h2) \<longrightarrow> m = max_retries h2"
      by blast
    have r: "connect_loop w (k # [Suc k ..< Suc (max_retries h)]) h =
               connect_loop w [Suc k ..< Suc (max_retries h2)] h2"
      using False by (simp add: a h2_def c2 [unfolded h2_def])
    have u: "[Suc k ..< Suc m] = Suc k # [Suc (Suc k) ..< Suc m]"
      using m(1) by (simp add: upt_conv_Cons)
    have e: "Suc k - 2 = k - 1"
      by simp
    have g: "trace (snd (connect_loop w [Suc k ..< Suc (max_retries h2)] h2)) =
               trace h @ Attempt k #
                 concat (map (\<lambda>i. [Sleep (base_delay h * 2 ^ (i - 2)), Attempt i])
                           [Suc k ..< Suc m])"
      unfolding m(3) u by (simp del: upt_Suc add: t2 c2 e)
    have "k \<le> m"
      using m(1) by simp
    moreover have "m \<le> max_retries h"
      using m(2) c2 by simp
    moreover have "\<not> fst (connect_loop w [Suc k ..< Suc (max_retries h2)] h2) \<longrightarrow>
                   m = max_retries h"
      using m(4) c2 by simp
    ultimately show ?thesis
      unfolding l r using g by blast
  qed
qed

lemma schedule_tail:
  "map (\<lambda>i. (if 1 < i then [Sleep (b * 2 ^ (i - 2))] else []) @ [Attempt i]) [Suc 1 ..< n] =
   map (\<lambda>i. [Sleep (b * 2 ^ (i - 2)), Attempt i]) [Suc 1 ..< n]"
  by (rule map_cong) auto

text \<open>
  Claim C4. Whatever the world does, the attempts and sleeps of \<open>connect_to_mcp_server\<close>
  are those of \<open>backoff_schedule\<close> for the number \<open>m\<close> of attempts made: before attempt
  \<open>i\<close> with \<open>1 < i\<close> exactly \<open>base_delay * 2 ^ (i - 2)\<close> seconds are slept, and the last
  event is an attempt, so nothing is slept after the final attempt. When the call returns
  False, all \<open>max_retries\<close> attempts were made.
\<close>

theorem connect_backoff:
  "\<exists>m \<le> max_retries h.
     trace (snd (connect_to_mcp_server w h)) = trace h @ backoff_schedule (base_delay h) m \<and>
     (\<not> fst (connect_to_mcp_server w h) \<longrightarrow> m = max_retries h)"
proof (cases "max_retries h")
  case 0
  then show ?thesis
    by (simp add: connect_to_mcp_server_def backoff_schedule_def)
next
  case (Suc n)
  then have "1 \<le> (1::nat)" "1 \<le> max_retries h" by simp_all
  from connect_loop_schedule [OF this, of w] obtain m where
    m: "1 \<le> m" "m \<le> max_retries h"
       "trace (snd (connect_loop w [1 ..< Suc (max_retries h)] h)) =
          trace h @ Attempt 1 #
            concat (map (\<lambda>i. [Sleep (base_delay h * 2 ^ (i - 2)), Attempt i]) [Suc 1 ..< Suc m])"
       "\<not> fst (connect_loop w [1 ..< Suc (max_retries h)] h) \<longrightarrow> m = max_retries h"
    by blast
  have u: "[1 ..< Suc m] = 1 # [Suc 1 ..< Suc m]"
    using m(1) by (simp add: upt_conv_Cons)
  have s: "backoff_schedule (base_delay h) m =
             Attempt 1 #
               concat (map (\<lambda>i. [Sleep (base_delay h * 2 ^ (i - 2)), Attempt i]) [Suc 1 ..< Suc m])"
    unfolding backoff_schedule_def u
    by (simp only: list.map concat.simps schedule_tail) simp
  show ?thesis
    using m by (intro exI [of _ m]) (simp add: connect_to_mcp_server_def s)
qed

theorem connect_backoff_witness:
  "fst (connect_to_mcp_server (dead_env connection_failed) new_host) = False \<and>
   trace (snd (connect_to_mcp_server (dead_env connection_failed) new_host)) =
     [Attempt 1, Sleep 1, Attempt 2, Sleep 2, Attempt 3]"
proof -
  have n: "[1 ..< max_retries new_host + 1] = [1, 2, 3]"
    by (simp add: new_host_def upt_rec)
  have f: "fst (connect_to_mcp_server (dead_env connection_failed) new_host) = False"
    unfolding connect_to_mcp_server_def n by (simp add: dead_attempt)
  from connect_backoff [of new_host "dead_env connection_failed"] f
  have "trace (snd (connect_to_mcp_server (dead_env connection_failed) new_host)) =
          trace new_host @ backoff_schedule (base_delay new_host) (max_retries new_host)"
    by auto
  also have "\<dots> = [Attempt 1, Sleep 1, Attempt 2, Sleep 2, Attempt 3]"
    by (simp add: new_host_def backoff_schedule_def upt_rec)
  finally show ?thesis
    using f by simp
qed

section \<open>Searching for stocks\<close>

lemma match_line_obj: "match_line repr i (JObj row) = Inr (match_entry repr i row)"
  by (simp add: match_line_def match_entry_def match_field_def and_then_def)

lemma match_lines_objs:
  "match_lines repr i (map JObj rows) acc =
     Inr (acc @ concat (map (\<lambda>(j, row). match_entry repr j row) (enumerate i rows)))"
  by (induction rows arbitrary: i acc) (simp_all add: match_line_obj and_then_def)

text \<open>
  Claim C10. When the upstream answer has no error and a non-empty list of best matches,
  the text of \<open>search_stocks\<close> is the header followed by one line for each of the first
  five matches only, in upstream order, numbered from 1: at most five lines, whatever the
  list holds from the sixth place on.
\<close>

theorem search_stocks_first_five:
  assumes "api_key = Some key" and "key \<noteq> []"
    and "net [(''function'', ''SYMBOL_SEARCH''), (''apikey'', key), (''keywords'', query)] =
           HttpJson (JObj kvs)"
    and "''error'' \<notin> set (map fst kvs)"
    and "map_of kvs ''bestMatches'' = Some (JArr ms)"
    and "ms \<noteq> []"
    and "take 5 ms = map JObj rows"
  shows "fst (search_stocks api_key net repr query) =
           Inr (search_header query @
                concat (map (\<lambda>(i, row). match_entry repr i row) (enumerate 1 rows))) \<and>
         length rows = min 5 (length ms)"
proof -
  have d: "make_api_request api_key net ''SYMBOL_SEARCH'' [(''keywords'', query)] =
             (Inr (JObj kvs),
              [[(''function'', ''SYMBOL_SEARCH''), (''apikey'', key), (''keywords'', query)]])"
    using assms(1-3) by (simp add: make_api_request_def)
  have t: "search_text repr query (JObj kvs) =
             match_lines repr 1 (take 5 ms) (search_header query)"
    using assms(4-6) by (simp add: search_text_def and_then_def)
  have "length (take 5 ms) = length (map JObj rows)"
    using assms(7) by simp
  then have l: "length rows = min 5 (length ms)"
    by simp
  show ?thesis
    using l by (simp add: search_stocks_def d and_then_def t assms(7) match_lines_objs)
qed

theorem search_stocks_first_five_witness:
  "fst (search_stocks (Some ''demo'') (\<lambda>ps. HttpJson six_matches) (\<lambda>j. []) ''a'') =
     Inr (search_header ''a'' @
          ''1. A - A Inc'' @ newline @ ''2. B - B Inc'' @ newline @ ''3. C - C Inc'' @ newline @
          ''4. D - D Inc'' @ newline @ ''5. E - E Inc'' @ newline)"
proof -
  have "fst (search_stocks (Some ''demo'') (\<lambda>ps. HttpJson six_matches) (\<lambda>j. []) ''a'') =
          Inr (search_header ''a'' @
               concat (map (\<lambda>(i, row). match_entry (\<lambda>j. []) i row)
                 (enumerate 1
                    [[(''1. symbol'', JStr ''A''), (''2. name'', JStr ''A Inc'')],
                     [(''1. symbol'', JStr ''B''), (''2. name'', JStr ''B Inc'')],
                     [(''1. symbol'', JStr ''C''), (''2. name'', JStr ''C Inc'')],
                     [(''1. symbol'', JStr ''D''), (''2. name'', JStr ''D Inc'')],
                     [(''1. symbol'', JStr ''E''), (''2. name'', JStr ''E Inc'')]])))"
    using search_stocks_first_five [of "Some ''demo''" "''demo''" "\<lambda>ps. HttpJson six_matches"
            "''a''" "[(''bestMatches'',
            JArr [example_match ''A'', example_match ''B'', example_match ''C'',
                  example_match ''D'', example_match ''E'', example_match ''F''])]"
            "[example_match ''A'', example_match ''B'', example_match ''C'',
                  example_match ''D'', example_match ''E'', example_match ''F'']"
            "[[(''1. symbol'', JStr ''A''), (''2. name'', JStr ''A Inc'')],
                     [(''1. symbol'', JStr ''B''), (''2. name'', JStr ''B Inc'')],
                     [(''1. symbol'', JStr ''C''), (''2. name'', JStr ''C Inc'')],
                     [(''1. symbol'', JStr ''D''), (''2. name'', JStr ''D Inc'')],
                     [(''1. symbol'', JStr ''E''), (''2. name'', JStr ''E Inc'')]]" "\<lambda>j. []"]
    by (simp add: six_matches_def example_match_def)
  then show ?thesis
    by (simp add: match_entry_def match_field_def str_nat.simps)
qed

section \<open>One round of tool execution\<close>

lemma tool_calls_append: "tool_calls (xs @ ys) = tool_calls xs @ tool_calls ys"
  by (induction xs rule: tool_calls.induct) simp_all

lemma result_ids_append: "result_ids (xs @ ys) = result_ids xs @ result_ids ys"
  by (induction xs rule: result_ids.induct) simp_all

lemma call_body_fields:
  "call_body w tname args h = (r, h1) \<Longrightarrow> trace h1 = trace h @ [ToolCall tname args]"
  by (auto simp: call_body_def emit_def tick_def Let_def
           split: option.splits call_outcome.splits list.splits)

lemma tool_error_fields:
  "tool_error tname e h = (r, h1) \<Longrightarrow>
   trace h1 = trace h \<and> mcp_session h1 = mcp_session h \<and>
   (available_tools h1 = [] \<or> available_tools h1 = available_tools h)"
  by (auto simp: tool_error_def split: if_splits)

lemma call_mcp_tool_fields:
  assumes "call_mcp_tool w tname args h = (r, h1)"
  shows "trace h1 = trace h @ [ToolCall tname args] \<and>
         (available_tools h1 = [] \<or> available_tools h1 = available_tools h)"
proof -
  obtain b h0 where b: "call_body w tname args h = (b, h0)"
    by (cases "call_body w tname args h") auto
  note f = call_body_fields [OF b] call_body_catalog [OF b]
  show ?thesis
  proof (cases b)
    case (Inl e)
    then have "tool_error tname e h0 = (r, h1)"
      using assms b by (simp add: call_mcp_tool_def)
    from tool_error_fields [OF this] f show ?thesis by auto
  next
    case (Inr t)
    then have "h1 = h0"
      using assms b by (simp add: call_mcp_tool_def)
    with f show ?thesis by simp
  qed
qed

lemma execute_tool_calls_round:
  "execute_tool_calls w bs msgs h = (msgs2, h1) \<Longrightarrow>
   tool_calls (trace h1) = tool_calls (trace h) @ requested_calls bs \<and>
   take (length msgs) msgs2 = msgs \<and>
   result_ids (drop (length msgs) msgs2) = requested_ids bs"
proof (induction w bs msgs h arbitrary: msgs2 h1 rule: execute_tool_calls.induct)
  case (1 w msgs h)
  then show ?case by simp
next
  case (2 w t bs msgs h)
  then show ?case by simp
next
  case (3 w tid tname tinput bs msgs h)
  obtain r h0 where c: "call_mcp_tool w tname tinput h = (r, h0)"
    by (cases "call_mcp_tool w tname tinput h") auto
  let ?m = "Message ''user'' (ToolResults [(tid, r)])"
  from "3.prems" c have e: "execute_tool_calls w bs (msgs @ [?m]) h0 = (msgs2, h1)"
    by simp
  from "3.IH" [OF c [symmetric] e]
  have ih: "tool_calls (trace h1) = tool_calls (trace h0) @ requested_calls bs"
       "take (length (msgs @ [?m])) msgs2 = msgs @ [?m]"
       "result_ids (drop (length (msgs @ [?m])) msgs2) = requested_ids bs"
    by simp_all
  have t0: "tool_calls (trace h0) = tool_calls (trace h) @ [(tname, tinput)]"
    using call_mcp_tool_fields [OF c] by (simp add: tool_calls_append)
  from ih(2) obtain rest where m2: "msgs2 = msgs @ ?m # rest"
    by (metis append_take_drop_id append.assoc append_Cons append_Nil)
  show ?case
    using ih(1) ih(3) t0 by (simp add: m2)
qed

text \<open>
  Whatever the second request brings (an answer of any shape or an exception), the tool
  invocations of the turn are exactly those the first response asked for: the second
  answer is never searched for tool-use blocks.
\<close>

lemma handle_tool_use_no_further_calls:
  "tool_calls (trace (snd (handle_tool_use w resp msgs h))) =
     tool_calls (trace h) @ requested_calls (content resp)"
proof -
  obtain msgs2 h1 where e:
    "execute_tool_calls w (content resp)
       (msgs @ [Message ''assistant'' (Blocks (content resp))]) h = (msgs2, h1)"
    by (cases "execute_tool_calls w (content resp)
                 (msgs @ [Message ''assistant'' (Blocks (content resp))]) h") auto
  have r: "tool_calls (trace h1) = tool_calls (trace h) @ requested_calls (content resp)"
    using execute_tool_calls_round [OF e] by simp
  show ?thesis
    using r
    by (simp add: handle_tool_use_def e send_completion_def emit_def tick_def
          tool_calls_append split: llm_outcome.splits sum.splits)
qed

text \<open>
  When the second answer starts with a text block, that text is the result, whatever the
  stop reason of the answer and whatever blocks follow the text.
\<close>

lemma handle_tool_use_text_first:
  assumes "execute_tool_calls w (content resp)
             (msgs @ [Message ''assistant'' (Blocks (content resp))]) h = (msgs2, h1)"
    and "create_message w (clock h1) (format_tools_for_claude h1) msgs2 =
           LLMReturns \<lparr>stop_reason = reason, content = TextBlock t # others\<rparr>"
  shows "fst (handle_tool_use w resp msgs h) = t"
  by (simp add: handle_tool_use_def assms send_completion_def)

text \<open>
  When the second answer starts with a tool-use block, line 299 reads the attribute
  \<open>text\<close> of that block, and the handler of \<open>handle_tool_use\<close> turns the AttributeError
  into the result, whatever blocks follow.
\<close>

lemma handle_tool_use_tool_block_first:
  assumes "execute_tool_calls w (content resp)
             (msgs @ [Message ''assistant'' (Blocks (content resp))]) h = (msgs2, h1)"
    and "create_message w (clock h1) (format_tools_for_claude h1) msgs2 =
           LLMReturns \<lparr>stop_reason = reason, content = ToolUseBlock tid tname tinput # others\<rparr>"
  shows "fst (handle_tool_use w resp msgs h) = ''Error during tool execution: AttributeError''"
  by (simp add: handle_tool_use_def assms send_completion_def tool_use_error_def
        no_attribute_def attribute_error_def)

lemma call_live:
  "mcp_session h \<noteq> None \<Longrightarrow>
   call_mcp_tool (live_env r) tname args h =
     (''AAPL: $150.00'', tick (emit (ToolCall tname args) h))"
  by (auto simp: call_mcp_tool_def call_body_def live_env_def emit_def tick_def Let_def)

lemma handle_tool_use_text_first_example:
  "fst (handle_tool_use (live_env second_answer) first_answer
          [Message ''user'' (Text ''Price of Apple?'')] connected_host) = ''Apple is at $150.00'' \<and>
   stop_reason second_answer = ''tool_use''"
proof -
  let ?h1 = "tick (emit (ToolCall ''get_stock_quote'' [(''symbol'', ''AAPL'')]) connected_host)"
  let ?msgs2 = "[Message ''user'' (Text ''Price of Apple?''),
                 Message ''assistant'' (Blocks (content first_answer)),
                 Message ''user'' (ToolResults [(''tool_123'', ''AAPL: $150.00'')])]"
  have s: "mcp_session connected_host \<noteq> None"
    by (simp add: connected_host_def new_host_def)
  have a: "execute_tool_calls (live_env second_answer) (content first_answer)
             ([Message ''user'' (Text ''Price of Apple?'')] @
              [Message ''assistant'' (Blocks (content first_answer))]) connected_host =
           (?msgs2, ?h1)"
    by (simp add: first_answer_def call_live [OF s])
  have b: "create_message (live_env second_answer) (clock ?h1) (format_tools_for_claude ?h1)
             ?msgs2 =
           LLMReturns \<lparr>stop_reason = ''tool_use'',
             content = TextBlock ''Apple is at $150.00'' #
               [ToolUseBlock ''tool_456'' ''get_stock_quote'' [(''symbol'', ''MSFT'')]]\<rparr>"
    by (simp add: live_env_def second_answer_def)
  show ?thesis
    using handle_tool_use_text_first [OF a b]
    by (simp add: second_answer_def)
qed

text \<open>
  Claim C7 fails where the second response signals \<open>tool_use\<close> with its tool-use block
  first, the case the claim singles out. The tool of the first response was invoked and
  has answered, no further tool is invoked, but line 299 reads
  \<open>final_response.content[0].text\<close>, a tool-use block has no such attribute, and the user
  is told of an error during tool execution instead of being given the second response.
\<close>

theorem second_tool_use_answer_is_an_error:
  "fst (handle_tool_use (live_env follow_up_tool_use) first_answer
          [Message ''user'' (Text ''Price of Apple?'')] connected_host) =
     ''Error during tool execution: AttributeError'' \<and>
   stop_reason follow_up_tool_use = ''tool_use'' \<and>
   tool_calls (trace (snd (handle_tool_use (live_env follow_up_tool_use) first_answer
          [Message ''user'' (Text ''Price of Apple?'')] connected_host))) =
     [(''get_stock_quote'', [(''symbol'', ''AAPL'')])]"
  by (simp add: handle_tool_use_def first_answer_def follow_up_tool_use_def live_env_def
        call_mcp_tool_def call_body_def send_completion_def format_tools_for_claude_def
        connected_host_def new_host_def emit_def tick_def tool_use_error_def
        no_attribute_def attribute_error_def Let_def)

text \<open>
  Claim C6 fails where the response with stop reason \<open>tool_use\<close> starts with its tool-use
  block: line 234 reads \<open>response.content[0].text\<close>, a tool-use block has no such
  attribute, and the handler of \<open>get_claude_response\<close> answers before \<open>handle_tool_use\<close>
  is reached. A catalog was offered, one tool call was requested, none is made.
\<close>

theorem bare_tool_use_is_not_executed:
  "fst (get_claude_response (live_env bare_tool_use) ''Price of Apple?'' connected_host) =
     ''Error communicating with Claude: AttributeError'' \<and>
   stop_reason bare_tool_use = ''tool_use'' \<and>
   format_tools_for_claude connected_host \<noteq> [] \<and>
   requested_calls (content bare_tool_use) = [(''get_stock_quote'', [(''symbol'', ''AAPL'')])] \<and>
   tool_calls (trace (snd (get_claude_response (live_env bare_tool_use) ''Price of Apple?''
                             connected_host))) = []"
  by (simp add: get_claude_response_def send_completion_def live_env_def bare_tool_use_def
        format_tools_for_claude_def connected_host_def new_host_def emit_def tick_def
        claude_error_def no_attribute_def attribute_error_def lower_def lower_char_def Let_def)

text \<open>
  When the response starts with a text block, the round is as Claim C6 says: one
  invocation for each tool-use block, in the order of the blocks, and the second request
  carries the user message, the assistant message and one tool result for each block,
  tagged with the identifier of that block.
\<close>

lemma get_claude_response_tool_round:
  assumes "format_tools_for_claude h \<noteq> []"
    and "create_message w (clock h) (format_tools_for_claude h)
           [Message ''user'' (Text user_message)] =
         LLMReturns \<lparr>stop_reason = ''tool_use'', content = TextBlock t # others\<rparr>"
  shows "\<exists>msgs2 h1 h2.
           execute_tool_calls w (TextBlock t # others)
             [Message ''user'' (Text user_message),
              Message ''assistant'' (Blocks (TextBlock t # others))]
             (tick (emit (Completion (format_tools_for_claude h)
                            [Message ''user'' (Text user_message)] (mcp_session h)) h)) =
             (msgs2, h1) \<and>
           snd (get_claude_response w user_message h) = h2 \<and>
           trace h2 = trace h1 @ [Completion (format_tools_for_claude h1) msgs2 (mcp_session h1)] \<and>
           tool_calls (trace h2) = tool_calls (trace h) @ requested_calls others \<and>
           take 2 msgs2 = [Message ''user'' (Text user_message),
                           Message ''assistant'' (Blocks (TextBlock t # others))] \<and>
           result_ids (drop 2 msgs2) = requested_ids others"
proof -
  let ?h0 = "tick (emit (Completion (format_tools_for_claude h)
                            [Message ''user'' (Text user_message)] (mcp_session h)) h)"
  let ?m1 = "[Message ''user'' (Text user_message),
              Message ''assistant'' (Blocks (TextBlock t # others))]"
  obtain msgs2 h1 where e: "execute_tool_calls w (TextBlock t # others) ?m1 ?h0 = (msgs2, h1)"
    by (cases "execute_tool_calls w (TextBlock t # others) ?m1 ?h0") auto
  have g: "get_claude_response w user_message h =
             handle_tool_use w \<lparr>stop_reason = ''tool_use'', content = TextBlock t # others\<rparr>
               [Message ''user'' (Text user_message)] ?h0"
    using assms by (simp add: get_claude_response_def send_completion_def Let_def)
  have tr: "trace (snd (handle_tool_use w \<lparr>stop_reason = ''tool_use'', content = TextBlock t # others\<rparr>
               [Message ''user'' (Text user_message)] ?h0)) =
            trace h1 @ [Completion (format_tools_for_claude h1) msgs2 (mcp_session h1)]"
    using e by (simp add: handle_tool_use_def send_completion_def emit_def tick_def
                  split: llm_outcome.splits sum.splits)
  have t0: "tool_calls (trace ?h0) = tool_calls (trace h)"
    by (simp add: emit_def tick_def tool_calls_append)
  from execute_tool_calls_round [OF e] t0
  have r: "tool_calls (trace h1) = tool_calls (trace h) @ requested_calls others"
          "take 2 msgs2 = ?m1" "result_ids (drop 2 msgs2) = requested_ids others"
    by (simp_all add: numeral_2_eq_2)
  show ?thesis
    using e g tr r by (simp add: tool_calls_append)
qed

section \<open>The catalog offered to the model\<close>

text \<open>
  The formatter of the host copies the three attributes, and the keywords of the host
  contain those of the specification: what the specification counts as a failure of the
  connection, \<open>call_mcp_tool\<close> classifies as one.
\<close>

lemma format_tool_same_descriptor: "list_all2 same_descriptor (map format_tool ts) ts"
  by (simp add: list_all2_map1 list_all2_same same_descriptor_def format_tool_def)

lemma connection_class_classified:
  "connection_class e \<Longrightarrow> \<not> is_timeout e \<and> connection_error e"
  by (auto simp: connection_class_def connection_error_def spec_connection_keywords_def
        connection_keywords_def)

text \<open>
  Every operation of the host keeps it sound. The catalog is assigned in two places only:
  \<open>discover_tools\<close> stores what the session just listed, and \<open>call_mcp_tool\<close> empties it
  when the call failed with an error of the connection class, so that a session that is
  no longer live is left with an empty catalog. The session is replaced only inside
  \<open>connect_to_mcp_server\<close>, which the program enters with an empty catalog and leaves
  with a failure and an empty catalog, or with the catalog its new session listed.
\<close>

lemma sound_call_mcp_tool:
  assumes "sound h"
  shows "sound (snd (call_mcp_tool w tname args h))"
proof (cases "mcp_session h")
  case None
  with assms show ?thesis
    by (auto simp: sound_def catalog_confirmed_def call_mcp_tool_def call_body_def
          tool_error_def emit_def tick_def Let_def)
next
  case (Some s)
  show ?thesis
  proof (cases "call_tool w (clock h) tname args")
    case (CallRaises e)
    have n: "\<not> (\<not> is_timeout e \<and> connection_error e) \<Longrightarrow> \<not> connection_class e"
      using connection_class_classified by blast
    show ?thesis
      using assms Some CallRaises n
      by (auto simp: sound_def catalog_confirmed_def live_session_def call_mcp_tool_def
            call_body_def tool_error_def emit_def tick_def Let_def)
  next
    case (CallReturns cs)
    with assms Some show ?thesis
      by (auto simp: sound_def catalog_confirmed_def call_mcp_tool_def call_body_def
            tool_error_def emit_def tick_def Let_def split: list.splits sum.splits)
  qed
qed

lemma sound_execute_tool_calls:
  "sound h \<Longrightarrow> sound (snd (execute_tool_calls w bs msgs h))"
proof (induction w bs msgs h rule: execute_tool_calls.induct)
  case (3 w tid tname tinput bs msgs h)
  obtain r h0 where c: "call_mcp_tool w tname tinput h = (r, h0)"
    by (cases "call_mcp_tool w tname tinput h") auto
  have "sound h0"
    using sound_call_mcp_tool [OF "3.prems", of w tname tinput] c by simp
  from "3.IH" [OF c [symmetric] this] show ?case
    by (simp add: c)
qed simp_all

lemma sound_send_completion:
  "sound h \<Longrightarrow> sound (snd (send_completion w (format_tools_for_claude h) msgs h))"
  by (auto simp: sound_def catalog_confirmed_def send_completion_def emit_def tick_def
        format_tools_for_claude_def format_tool_same_descriptor split: option.splits)

lemma sound_handle_tool_use:
  assumes "sound h"
  shows "sound (snd (handle_tool_use w resp msgs h))"
proof -
  obtain msgs2 h1 where e:
    "execute_tool_calls w (content resp)
       (msgs @ [Message ''assistant'' (Blocks (content resp))]) h = (msgs2, h1)"
    by (cases "execute_tool_calls w (content resp)
                 (msgs @ [Message ''assistant'' (Blocks (content resp))]) h") auto
  have "sound h1"
    using sound_execute_tool_calls [OF assms, of w "content resp"
            "msgs @ [Message ''assistant'' (Blocks (content resp))]"] e by simp
  from sound_send_completion [OF this, of w msgs2] show ?thesis
    by (auto simp: handle_tool_use_def e split: prod.splits llm_outcome.splits sum.splits)
qed

lemma sound_get_claude_response:
  assumes "sound h"
  shows "sound (snd (get_claude_response w user_message h))"
proof -
  let ?msgs = "Message ''user'' (Text user_message) #
                 (if format_tools_for_claude h = []
                  then [Message ''system'' (Text unavailable_note)] else [])"
  obtain out h1 where s: "send_completion w (format_tools_for_claude h) ?msgs h = (out, h1)"
    by (cases "send_completion w (format_tools_for_claude h) ?msgs h") auto
  have h1: "sound h1"
    using sound_send_completion [OF assms, of w ?msgs] s by simp
  show ?thesis
    using h1 sound_handle_tool_use [OF h1]
    by (auto simp: get_claude_response_def Let_def s split: llm_outcome.splits sum.splits)
qed

lemma sound_connect_attempt:
  assumes "available_tools h = []" and "list_all confirmed (trace h)"
  shows "sound (snd (connect_attempt w i h))"
  using assms
  by (auto simp: sound_def catalog_confirmed_def live_session_def connect_attempt_def
        discover_tools_def cleanup_connections_def emit_def tick_def Let_def
        split: step.splits list_outcome.splits option.splits)

lemma confirmed_after_failure:
  "list_all confirmed (trace h) \<Longrightarrow> list_all confirmed (trace (after_failure i h))"
  by (simp add: after_failure_fields)

lemma sound_connect_loop:
  "available_tools h = [] \<Longrightarrow> list_all confirmed (trace h) \<Longrightarrow>
   sound (snd (connect_loop w is h)) \<and>
   (\<not> fst (connect_loop w is h) \<longrightarrow> available_tools (snd (connect_loop w is h)) = [])"
proof (induction "is" arbitrary: h)
  case Nil
  then show ?case by (simp add: sound_def catalog_confirmed_def)
next
  case (Cons i rest)
  obtain ok h1 where a: "connect_attempt w i h = (ok, h1)"
    by (cases "connect_attempt w i h") auto
  have s1: "sound h1"
    using sound_connect_attempt [OF Cons.prems, of w i] a by simp
  show ?case
  proof (cases ok)
    case True
    then show ?thesis using a s1 by simp
  next
    case False
    have "available_tools h1 = []"
      using connect_attempt_catalog [of h w i] Cons.prems(1) a False by simp
    then have e: "available_tools (after_failure i h1) = []"
      by (simp add: after_failure_fields)
    have c: "list_all confirmed (trace (after_failure i h1))"
      using s1 by (simp add: sound_def confirmed_after_failure)
    from Cons.IH [OF e c] show ?thesis
      using a False by simp
  qed
qed

lemma sound_connect:
  assumes "available_tools h = []" and "sound h"
  shows "sound (snd (connect_to_mcp_server w h)) \<and>
         (\<not> fst (connect_to_mcp_server w h) \<longrightarrow>
            available_tools (snd (connect_to_mcp_server w h)) = [])"
  using sound_connect_loop [OF assms(1), of w] assms(2)
  by (simp add: connect_to_mcp_server_def sound_def)

lemma sound_proceed: "sound h \<Longrightarrow> sound (h\<lparr>proceed_without_tools := True\<rparr>)"
  by (simp add: sound_def catalog_confirmed_def split: option.splits)

lemma sound_run_interactive:
  "sound h \<Longrightarrow> sound (run_interactive w inputs h)"
proof (induction w inputs h rule: run_interactive.induct)
  case (1 w h)
  then show ?case by simp
next
  case (2 w rest h)
  then show ?case by simp
next
  case (3 w l rest h)
  note sound_h = "3.prems"
  let ?u = "strip l"
  show ?case
  proof (cases "lower ?u \<in> set [''quit'', ''exit'', ''q'']")
    case True
    then show ?thesis using sound_h by (simp add: Let_def)
  next
    case nq: False
    show ?thesis
    proof (cases "?u = []")
      case True
      with nq "3.IH"(1) [OF refl nq True sound_h] show ?thesis
        by (simp add: Let_def)
    next
      case ne: False
      show ?thesis
      proof (cases "available_tools h = [] \<and> \<not> proceed_without_tools h")
        case False
        have "sound (snd (get_claude_response w ?u h))"
          by (rule sound_get_claude_response [OF sound_h])
        moreover have nf: "(available_tools h = [] \<and> \<not> proceed_without_tools h) = False"
          using False by blast
        ultimately show ?thesis
          using "3.IH"(5) [OF refl nq ne False] nq ne by (simp add: Let_def nf)
      next
        case need: True
        obtain ok h1 where c: "connect_to_mcp_server w h = (ok, h1)"
          by (cases "connect_to_mcp_server w h") auto
        from need sound_connect [OF _ sound_h, of w] c
        have s1: "sound h1" and e1: "\<not> ok \<longrightarrow> available_tools h1 = []"
          by simp_all
        show ?thesis
        proof (cases ok)
          case True
          have "sound (snd (get_claude_response w ?u h1))"
            by (rule sound_get_claude_response [OF s1])
          moreover have okT: "ok = True"
            using True by simp
          ultimately have "sound (run_interactive w rest (snd (get_claude_response w ?u h1)))"
            using "3.IH"(2) [OF refl nq ne need c [symmetric]] by simp
          then show ?thesis
            using nq ne need c True by (simp add: Let_def)
        next
          case nok: False
          then have okF: "ok = False"
            by simp
          show ?thesis
          proof (cases rest)
            case Nil
            then show ?thesis
              using nq ne need c nok s1 by (simp add: Let_def)
          next
            case (Cons ev rest')
            show ?thesis
            proof (cases ev)
              case CtrlC
              then show ?thesis
                using nq ne need c nok s1 Cons by (simp add: Let_def)
            next
              case (Line choice)
              show ?thesis
              proof (cases "lower (strip choice) \<in> set [''yes'', ''y'']")
                case True
                have "sound (snd (get_claude_response w ?u (h1\<lparr>proceed_without_tools := True\<rparr>)))"
                  by (rule sound_get_claude_response [OF sound_proceed [OF s1]])
                from "3.IH"(3) [OF refl nq ne need c [symmetric] okF Cons Line True this]
                show ?thesis
                  using nq ne need c nok Cons Line True by (simp add: Let_def)
              next
                case False
                from "3.IH"(4) [OF refl nq ne need c [symmetric] okF Cons Line False s1]
                show ?thesis
                  using nq ne need c nok Cons Line False by (simp add: Let_def)
              qed
            qed
          qed
        qed
      qed
    qed
  qed
qed

lemma sound_new_host: "sound new_host"
  by (simp add: sound_def catalog_confirmed_def new_host_def)

text \<open>
  Claim C2. In every run of the program, from startup through any finite sequence of
  inputs, each completion request sent with a non-empty tool catalog is sent while the
  session held at that moment is live (no tool call on it has failed with an error of the
  connection class), and offers exactly the descriptors (name, description and input
  schema, one for one and in order) of the tools that the most recent discovery on that
  session returned.
\<close>

theorem offered_catalog_confirmed:
  assumes "main w key client inputs = Inr h"
  shows "list_all confirmed (trace h)"
proof -
  from assms have i: "init key client = Inr new_host"
    by (auto simp: main_def init_def split: option.splits if_splits step.splits sum.splits)
  obtain ok h1 where c: "connect_to_mcp_server w new_host = (ok, h1)"
    by (cases "connect_to_mcp_server w new_host") auto
  have "available_tools new_host = []"
    by (simp add: new_host_def)
  from sound_connect [OF this sound_new_host, of w] c have s1: "sound h1"
    by simp
  have t: "trace (cleanup x) = trace x" for x
    by (simp add: cleanup_def cleanup_connections_def)
  show ?thesis
  proof (cases ok)
    case True
    with assms i c have "h = cleanup (run_interactive w inputs h1)"
      by (simp add: main_def)
    with sound_run_interactive [OF s1, of w inputs] show ?thesis
      by (simp add: t sound_def)
  next
    case False
    with assms i c have "h = cleanup h1"
      by (simp add: main_def)
    with s1 show ?thesis
      by (simp add: t sound_def)
  qed
qed

lemma main_returns:
  "k \<noteq> [] \<Longrightarrow> \<exists>h. main w (Some k) Ok inputs = Inr h"
  by (simp add: main_def init_def split: prod.splits bool.splits)

lemma example_run_offers_tools:
  "list_ex offers_tools
     (trace (case main (live_env plain_answer) (Some ''key'') Ok
                    [Line ''Price of Apple?'', Line ''quit''] of
               Inl r \<Rightarrow> new_host | Inr h \<Rightarrow> h))"
  by code_simp

text \<open>
  What the invariant excludes: an offer on a session whose last tool call was refused by
  a closed connection, and an offer of a descriptor that is not the listed tool's. When
  the peer closes the connection during the tool round, the second request of the turn
  offers no tool.
\<close>

lemma offer_on_dropped_session_not_confirmed:
  "\<not> confirmed (Completion [format_tool example_tool] msgs
        (Some \<lparr>sid = 1, listed = Some [example_tool], raised = [peer_closed]\<rparr>))"
  by (simp add: live_session_def connection_class_def spec_connection_keywords_def
        peer_closed_def lower_def lower_char_def)

lemma offer_of_other_descriptor_not_confirmed:
  "\<not> confirmed (Completion [blank_descriptor] msgs
        (Some \<lparr>sid = 1, listed = Some [example_tool], raised = []\<rparr>))"
  by (simp add: live_session_def same_descriptor_def blank_descriptor_def example_tool_def)

lemma dropped_connection_ends_the_offer:
  "map offers_tools
     (trace (snd (get_claude_response dropped_env ''Price of Apple?'' connected_host))) =
   [False, True, False, False]"
  by code_simp

theorem offered_catalog_confirmed_witness:
  "(case main (live_env plain_answer) (Some ''key'') Ok
           [Line ''Price of Apple?'', Line ''quit''] of
      Inl r \<Rightarrow> False
    | Inr h \<Rightarrow> list_all confirmed (trace h) \<and> list_ex offers_tools (trace h))"
proof -
  obtain h where h: "main (live_env plain_answer) (Some ''key'') Ok
                       [Line ''Price of Apple?'', Line ''quit''] = Inr h"
    using main_returns [of "''key''"] by auto
  from offered_catalog_confirmed [OF h] example_run_offers_tools show ?thesis
    by (simp add: h)
qed

end
